theory Spec2Isabelle
  imports Main
begin

section \<open>The authentication views of flaskbb (\<^verbatim>\<open>flaskbb/auth/views.py\<close>)\<close>

text \<open>
  The module is an orchestrator: each view reads the request, asks its collaborators
  (the user model, the forms, the HTTP client, the JSON parser, the session layer) and
  answers with a redirect or a rendered template. The embedding keeps that shape. The
  answers of the collaborators are the fields of an environment record; every call
  with an effect (a log line, an HTTP request, a database write, a session start, a
  flash message, a token) is an event, and a view returns its outcome together with
  the events it caused, in order. An exception is the outcome \<open>Inl err\<close>; the events
  that happened before it are kept.
\<close>

subsection \<open>Python values\<close>

text \<open>
  What \<^verbatim>\<open>json.loads\<close> can return, and what the views pass on untyped: \<open>PNone\<close>
  is Python's \<^verbatim>\<open>None\<close> (JSON \<^verbatim>\<open>null\<close>), a dictionary is an association list read
  by \<open>map_of\<close>. JSON numbers are modelled by the integers.
\<close>

datatype pyval =
    PNone
  | PBool bool
  | PInt int
  | PStr string
  | PList "pyval list"
  | PDict "(string \<times> pyval) list"

text \<open>Python's truth value of an object, as \<^verbatim>\<open>if x\<close> and \<^verbatim>\<open>x or y\<close> use it.\<close>

fun truthy :: "pyval \<Rightarrow> bool" where
  "truthy PNone = False"
| "truthy (PBool b) = b"
| "truthy (PInt i) = (i \<noteq> 0)"
| "truthy (PStr s) = (s \<noteq> [])"
| "truthy (PList xs) = (xs \<noteq> [])"
| "truthy (PDict d) = (d \<noteq> [])"

text \<open>\<^verbatim>\<open>x or y\<close>\<close>

definition py_or :: "pyval \<Rightarrow> pyval \<Rightarrow> pyval" where
  "py_or x y = (if truthy x then x else y)"

text \<open>\<^verbatim>\<open>d.get(k, default)\<close>; \<^verbatim>\<open>d.get(k)\<close> is \<open>dict_get d k PNone\<close>.\<close>

definition dict_get :: "(string \<times> pyval) list \<Rightarrow> string \<Rightarrow> pyval \<Rightarrow> pyval" where
  "dict_get d k dflt = (case map_of d k of None \<Rightarrow> dflt | Some v \<Rightarrow> v)"

datatype py_error =
    TypeError
  | AttributeError
  | ValueError
  | RequestException

subsection \<open>Data\<close>

text \<open>
  The keyword arguments of the \<^verbatim>\<open>User\<close> constructor as the views use them. The
  email comes from the remote response untyped, so it is a Python value. \<open>password\<close>
  is what is assigned to the model's password attribute.
\<close>

record user =
  username :: string
  email :: pyval
  password :: string
  date_joined :: int
  primary_group_id :: int

text \<open>\<^verbatim>\<open>flask_login.current_user\<close>: a proxy object, never \<^verbatim>\<open>None\<close> itself.\<close>

record visitor =
  is_authenticated :: bool
  is_anonymous :: bool
  visitor_username :: string

text \<open>What \<^verbatim>\<open>requests.post\<close> returns: \<^verbatim>\<open>req.status_code\<close> and \<^verbatim>\<open>req.text\<close>.\<close>

record http_response =
  status_code :: int
  body_text :: string

text \<open>
  One request to a view: the visitor, whether \<^verbatim>\<open>form.validate_on_submit()\<close> holds,
  \<^verbatim>\<open>request.args.get("next")\<close>, the data of the form fields, and the user that
  \<^verbatim>\<open>form.save()\<close> of the registration form persists and returns.
\<close>

record request =
  current_user :: visitor
  validate_on_submit :: bool
  args_next :: "string option"
  form_login :: string
  form_password :: string
  form_remember_me :: bool
  form_email :: string
  form_token :: string
  form_save :: user

text \<open>
  The collaborators. \<^verbatim>\<open>requests.post\<close> and \<^verbatim>\<open>json.loads\<close> may raise; the user
  model, the mailer and the session layer are taken to return normally.
\<close>

record env =
  CABINET_AUTH :: string
  CABINET_REGISTER :: string
  requests_post :: "string \<Rightarrow> pyval \<Rightarrow> py_error + http_response"
  json_loads :: "string \<Rightarrow> py_error + pyval"
  User_authenticate :: "string \<Rightarrow> string \<Rightarrow> user option \<times> bool"
  query_by_email :: "string \<Rightarrow> user option"
  make_reset_token :: "user \<Rightarrow> string"
  verify_reset_token :: "user \<Rightarrow> string \<Rightarrow> bool \<times> bool \<times> pyval"
  utcnow :: int

datatype level = ERROR | WARNING

datatype event =
    Post string pyval
  | Log level string
  | FormSave user
  | Save user
  | LoginUser user pyval
  | Flash string string
  | MakeResetToken user
  | SendResetToken user string
  | VerifyResetToken user string

datatype target =
    Url string
  | UrlFor string
  | UrlForProfile string

datatype reply =
    Redirect target
  | Render string

type_synonym 'a effect = "(py_error + 'a) \<times> event list"

text \<open>
  \<^verbatim>\<open>auth_cabinet_user\<close> returns the bare \<^verbatim>\<open>False\<close> on its first exit and a pair on
  the other two.
\<close>

datatype auth_ret =
    RBool bool
  | RPair bool pyval

subsection \<open>The remote identity backend\<close>

definition auth_cabinet_user :: "env \<Rightarrow> string \<Rightarrow> string \<Rightarrow> auth_ret effect" where
  "auth_cabinet_user e uname pw =
     (let url = CABINET_AUTH e;
          body = PDict [(''login'', PStr uname), (''password'', PStr pw)];
          sent = [Post url body]
      in case requests_post e url body of
           Inl err \<Rightarrow> (Inl err, sent)
         | Inr req \<Rightarrow>
             if status_code req \<noteq> 200 \<or> body_text req = [] then
               (Inr (RBool False),
                sent @ [Log ERROR (''requests.post to '' @ url @ '' failed'')])
             else
               (case json_loads e (body_text req) of
                  Inl err \<Rightarrow> (Inl err, sent)
                | Inr (PDict res) \<Rightarrow>
                    if dict_get res ''status'' PNone \<noteq> PStr ''OK'' then
                      (Inr (RPair False PNone),
                       sent @ [Log WARNING (''auth_cabinet_user: '' @ body_text req)])
                    else (Inr (RPair True (dict_get res ''email'' PNone)), sent)
                | Inr _ \<Rightarrow> (Inl AttributeError, sent)))"

definition create_cabinet_user :: "env \<Rightarrow> string \<Rightarrow> string \<Rightarrow> pyval \<Rightarrow> bool effect" where
  "create_cabinet_user e uname pw mail =
     (let url = CABINET_REGISTER e;
          body = PDict [(''login'', PStr uname), (''password'', PStr pw), (''email'', mail)];
          sent = [Post url body]
      in case requests_post e url body of
           Inl err \<Rightarrow> (Inl err, sent)
         | Inr req \<Rightarrow>
             if status_code req \<noteq> 200 \<or> body_text req = [] then
               (Inr False, sent @ [Log ERROR (''requests.post to '' @ url @ '' failed'')])
             else
               (case json_loads e (body_text req) of
                  Inl err \<Rightarrow> (Inl err, sent)
                | Inr (PDict res) \<Rightarrow>
                    if dict_get res ''status'' PNone \<noteq> PStr ''OK'' then
                      (Inr False,
                       sent @ [Log WARNING (''create_cabinet_user: '' @ body_text req)])
                    else (Inr True, sent)
                | Inr _ \<Rightarrow> (Inl AttributeError, sent)))"

subsection \<open>The views\<close>

text \<open>\<^verbatim>\<open>request.args.get("next") or url_for("forum.index")\<close>\<close>

definition next_or_index :: "request \<Rightarrow> target" where
  "next_or_index rq =
     (case args_next rq of
        Some n \<Rightarrow> if n \<noteq> [] then Url n else UrlFor ''forum.index''
      | None \<Rightarrow> UrlFor ''forum.index'')"

definition login :: "env \<Rightarrow> request \<Rightarrow> reply effect" where
  "login e rq =
     (if is_authenticated (current_user rq) then (Inr (Redirect (UrlFor ''user.profile'')), [])
      else if validate_on_submit rq then
        (let remote =
               (case auth_cabinet_user e (form_login rq) (form_password rq) of
                  (Inl err, evs) \<Rightarrow> (Inl err, evs)
                | (Inr (RBool b), evs) \<Rightarrow> (Inl TypeError, evs)
                | (Inr (RPair result mail), evs) \<Rightarrow>
                    if result then
                      (let u = \<lparr>username = form_login rq,
                                email = py_or mail (PStr ''unknown''),
                                password = form_password rq,
                                date_joined = utcnow e,
                                primary_group_id = 4\<rparr>
                       in (Inr (Redirect (next_or_index rq)),
                           evs @ [Save u, LoginUser u (PStr (form_password rq))]))
                    else
                      (Inr (Render ''auth/login.html''),
                       evs @ [Flash ''Wrong Username or Password.'' ''danger'']))
         in case User_authenticate e (form_login rq) (form_password rq) of
              (Some u, True) \<Rightarrow>
                (Inr (Redirect (next_or_index rq)),
                 [LoginUser u (PBool (form_remember_me rq))])
            | _ \<Rightarrow> remote)
      else (Inr (Render ''auth/login.html''), []))"

text \<open>
  The registration form is built from \<^verbatim>\<open>request.form\<close> (with or without a captcha
  field, by configuration, and with the language choices); what the view uses of it is
  \<^verbatim>\<open>validate_on_submit\<close> and \<^verbatim>\<open>save\<close>. After \<^verbatim>\<open>login_user(user)\<close> the proxy
  \<^verbatim>\<open>current_user\<close> is the new user, so the profile the registration redirects to is
  the one of \<^verbatim>\<open>user.username\<close>; \<^verbatim>\<open>login_user(user)\<close> has \<^verbatim>\<open>remember=False\<close> by default.
\<close>

definition register :: "env \<Rightarrow> request \<Rightarrow> reply effect" where
  "register e rq =
     (if is_authenticated (current_user rq) then
        (Inr (Redirect (UrlForProfile (visitor_username (current_user rq)))), [])
      else if validate_on_submit rq then
        (let u = form_save rq in
         case create_cabinet_user e (username u) (password u) (email u) of
           (Inl err, evs) \<Rightarrow> (Inl err, FormSave u # evs)
         | (Inr mirrored, evs) \<Rightarrow>
             (Inr (Redirect (UrlForProfile (username u))),
              FormSave u # evs @
              [LoginUser u (PBool False), Flash ''Thanks for registering.'' ''success'']))
      else (Inr (Render ''auth/register.html''), []))"

definition forgot_password :: "env \<Rightarrow> request \<Rightarrow> reply effect" where
  "forgot_password e rq =
     (if \<not> is_anonymous (current_user rq) then (Inr (Redirect (UrlFor ''forum.index'')), [])
      else if validate_on_submit rq then
        (case query_by_email e (form_email rq) of
           Some u \<Rightarrow>
             (Inr (Redirect (UrlFor ''auth.forgot_password'')),
              [MakeResetToken u, SendResetToken u (make_reset_token e u),
               Flash ''E-Mail sent! Please check your inbox.'' ''info''])
         | None \<Rightarrow>
             (Inr (Render ''auth/forgot_password.html''),
              [Flash (''You have entered a Username or E-Mail Address that is '' @
                      ''not linked with your account.'') ''danger'']))
      else (Inr (Render ''auth/forgot_password.html''), []))"

definition reset_password :: "env \<Rightarrow> request \<Rightarrow> reply effect" where
  "reset_password e rq =
     (if \<not> is_anonymous (current_user rq) then (Inr (Redirect (UrlFor ''forum.index'')), [])
      else if validate_on_submit rq then
        (case query_by_email e (form_email rq) of
           None \<Rightarrow> (Inl AttributeError, [])
         | Some u \<Rightarrow>
             (case verify_reset_token e u (form_token rq) of
                (expired, invalid, data) \<Rightarrow>
                  if invalid then
                    (Inr (Redirect (UrlFor ''auth.forgot_password'')),
                     [VerifyResetToken u (form_token rq),
                      Flash ''Your Password Token is invalid.'' ''danger''])
                  else if expired then
                    (Inr (Redirect (UrlFor ''auth.forgot_password'')),
                     [VerifyResetToken u (form_token rq),
                      Flash ''Your Password Token is expired.'' ''danger''])
                  else if truthy data then
                    (Inr (Redirect (UrlFor ''auth.login'')),
                     [VerifyResetToken u (form_token rq),
                      Save (u\<lparr>password := form_password rq\<rparr>),
                      Flash ''Your Password has been updated.'' ''success''])
                  else
                    (Inr (Render ''auth/reset_password.html''),
                     [VerifyResetToken u (form_token rq)])))
      else (Inr (Render ''auth/reset_password.html''), []))"

subsection \<open>Reading an event trace\<close>

text \<open>\<^verbatim>\<open>if user and authenticated\<close> in \<^verbatim>\<open>login\<close>: the local verifier accepts.\<close>

definition local_accepts :: "env \<Rightarrow> request \<Rightarrow> bool" where
  "local_accepts e rq =
     (case User_authenticate e (form_login rq) (form_password rq) of
        (Some u, authenticated) \<Rightarrow> authenticated
      | (None, authenticated) \<Rightarrow> False)"

text \<open>
  The HTTP requests to the cabinet and the server's log lines are not seen by the end
  user and touch no local record; every other event is local.
\<close>

fun is_remote_event :: "event \<Rightarrow> bool" where
  "is_remote_event (Post url body) = True"
| "is_remote_event (Log lv msg) = True"
| "is_remote_event ev = False"

definition local_events :: "event list \<Rightarrow> event list" where
  "local_events evs = filter (\<lambda>ev. \<not> is_remote_event ev) evs"

fun is_token_event :: "event \<Rightarrow> bool" where
  "is_token_event (MakeResetToken u) = True"
| "is_token_event (SendResetToken u t) = True"
| "is_token_event (VerifyResetToken u t) = True"
| "is_token_event ev = False"

text \<open>The \<^verbatim>\<open>remember\<close> arguments of the \<^verbatim>\<open>login_user\<close> calls of a trace.\<close>

fun remember_of :: "event \<Rightarrow> pyval list" where
  "remember_of (LoginUser u r) = [r]"
| "remember_of ev = []"

definition remember_args :: "event list \<Rightarrow> pyval list" where
  "remember_args evs = concat (map remember_of evs)"

text \<open>The users written to the database by \<^verbatim>\<open>user.save()\<close>.\<close>

fun saved_of :: "event \<Rightarrow> user list" where
  "saved_of (Save u) = [u]"
| "saved_of ev = []"

definition saved_users :: "event list \<Rightarrow> user list" where
  "saved_users evs = concat (map saved_of evs)"

subsection \<open>Sample collaborators\<close>

text \<open>
  A concrete environment for the scenarios of the specification: the cabinet answers
  every request with one fixed response, \<^verbatim>\<open>json.loads\<close> is tabulated on the bodies
  used, the local store knows the single user alice.
\<close>

definition alice :: user where
  "alice = \<lparr>username = ''alice'', email = PStr ''alice@x.com'', password = ''hash-of-secret'',
            date_joined = 1400000000, primary_group_id = 4\<rparr>"

definition guest :: visitor where
  "guest = \<lparr>is_authenticated = False, is_anonymous = True, visitor_username = []\<rparr>"

definition member :: visitor where
  "member = \<lparr>is_authenticated = True, is_anonymous = False, visitor_username = ''alice''\<rparr>"

definition nina_request :: request where
  "nina_request =
     \<lparr>current_user = guest, validate_on_submit = True, args_next = None,
      form_login = ''nina'', form_password = ''p1'', form_remember_me = True,
      form_email = ''nina@x.com'', form_token = ''t0'',
      form_save = \<lparr>username = ''nina'', email = PStr ''nina@x.com'',
                   password = ''hash-of-p1'', date_joined = 1500000000,
                   primary_group_id = 4\<rparr>\<rparr>"

definition alice_request :: "string \<Rightarrow> request" where
  "alice_request tok =
     \<lparr>current_user = guest, validate_on_submit = True, args_next = None,
      form_login = ''alice'', form_password = ''secret'', form_remember_me = True,
      form_email = ''alice@x.com'', form_token = tok,
      form_save = alice\<rparr>"

definition ok_response :: http_response where
  \<open>ok_response = \<lparr>status_code = 200, body_text = ''{"status": "OK", "email": "nina@x.com"}''\<rparr>\<close>

definition blank_response :: http_response where
  \<open>blank_response = \<lparr>status_code = 200, body_text = ''{"status": "OK", "email": ""}''\<rparr>\<close>

definition fail_response :: http_response where
  \<open>fail_response = \<lparr>status_code = 200, body_text = ''{"status": "FAIL"}''\<rparr>\<close>

definition down_response :: http_response where
  "down_response = \<lparr>status_code = 503, body_text = ''Service Unavailable''\<rparr>"

definition created_response :: http_response where
  \<open>created_response =
     \<lparr>status_code = 201, body_text = ''{"status": "OK", "email": "nina@x.com"}''\<rparr>\<close>

definition forbidden_response :: http_response where
  \<open>forbidden_response = \<lparr>status_code = 403, body_text = ''{"status": "FAIL"}''\<rparr>\<close>

definition sample_loads :: "string \<Rightarrow> py_error + pyval" where
  \<open>sample_loads s =
     (if s = ''{"status": "OK", "email": "nina@x.com"}'' then
        Inr (PDict [(''status'', PStr ''OK''), (''email'', PStr ''nina@x.com'')])
      else if s = ''{"status": "OK", "email": ""}'' then
        Inr (PDict [(''status'', PStr ''OK''), (''email'', PStr [])])
      else if s = ''{"status": "FAIL"}'' then
        Inr (PDict [(''status'', PStr ''FAIL'')])
      else Inl ValueError)\<close>

definition sample_verify :: "user \<Rightarrow> string \<Rightarrow> bool \<times> bool \<times> pyval" where
  "sample_verify u t =
     (if t = ''fresh'' then (False, False, PDict [(''id'', PInt 1)])
      else if t = ''old'' then (True, False, PNone)
      else if t = ''both'' then (True, True, PNone)
      else (False, True, PNone))"

definition cabinet :: "http_response \<Rightarrow> env" where
  "cabinet r =
     \<lparr>CABINET_AUTH = ''http://cabinet/auth'',
      CABINET_REGISTER = ''http://cabinet/register'',
      requests_post = (\<lambda>url body. Inr r),
      json_loads = sample_loads,
      User_authenticate =
        (\<lambda>l p. if l = ''alice'' then (Some alice, p = ''secret'') else (None, False)),
      query_by_email = (\<lambda>m. if m = ''alice@x.com'' then Some alice else None),
      make_reset_token = (\<lambda>u. ''token-for-'' @ username u),
      verify_reset_token = sample_verify,
      utcnow = 1600000000\<rparr>"

text \<open>The same environment with a cabinet that cannot be reached: the request raises.\<close>

definition unreachable :: env where
  "unreachable = (cabinet down_response)\<lparr>requests_post := (\<lambda>url body. Inl RequestException)\<rparr>"

section \<open>Properties\<close>

lemmas sample_defs = cabinet_def sample_loads_def sample_verify_def nina_request_def
  alice_request_def guest_def member_def alice_def ok_response_def blank_response_def
  fail_response_def down_response_def created_response_def forbidden_response_def
  unreachable_def

subsection \<open>What the cabinet calls leave in the trace\<close>

lemma auth_cabinet_user_local_events:
  "local_events (snd (auth_cabinet_user e l p)) = []"
  by (simp add: auth_cabinet_user_def local_events_def Let_def
           split: sum.splits pyval.splits)


lemma auth_cabinet_user_remember_args:
  "remember_args (snd (auth_cabinet_user e l p)) = []"
  by (simp add: auth_cabinet_user_def remember_args_def Let_def
           split: sum.splits pyval.splits)

text \<open>
  A transport failure makes \<^verbatim>\<open>auth_cabinet_user\<close> log an error and return the bare
  \<^verbatim>\<open>False\<close>, whatever the response is otherwise.
\<close>

lemma auth_cabinet_user_transport_failure:
  assumes "requests_post e (CABINET_AUTH e)
             (PDict [(''login'', PStr uname), (''password'', PStr pw)]) = Inr req"
    and "status_code req \<noteq> 200 \<or> body_text req = []"
  shows "auth_cabinet_user e uname pw =
           (Inr (RBool False),
            [Post (CABINET_AUTH e) (PDict [(''login'', PStr uname), (''password'', PStr pw)]),
             Log ERROR (''requests.post to '' @ CABINET_AUTH e @ '' failed'')])"
  using assms by (auto simp: auth_cabinet_user_def Let_def)

text \<open>The branch of \<^verbatim>\<open>login\<close> taken when the local verifier does not accept.\<close>

lemma login_remote_path:
  assumes "\<not> is_authenticated (current_user rq)" and "validate_on_submit rq"
    and "\<not> local_accepts e rq"
  shows "login e rq =
     (case auth_cabinet_user e (form_login rq) (form_password rq) of
        (Inl err, evs) \<Rightarrow> (Inl err, evs)
      | (Inr (RBool b), evs) \<Rightarrow> (Inl TypeError, evs)
      | (Inr (RPair result mail), evs) \<Rightarrow>
          if result then
            (Inr (Redirect (next_or_index rq)),
             evs @ [Save \<lparr>username = form_login rq, email = py_or mail (PStr ''unknown''),
                          password = form_password rq, date_joined = utcnow e,
                          primary_group_id = 4\<rparr>,
                    LoginUser \<lparr>username = form_login rq, email = py_or mail (PStr ''unknown''),
                          password = form_password rq, date_joined = utcnow e,
                          primary_group_id = 4\<rparr> (PStr (form_password rq))])
          else
            (Inr (Render ''auth/login.html''),
             evs @ [Flash ''Wrong Username or Password.'' ''danger'']))"
  using assms
  by (simp add: login_def local_accepts_def Let_def
        split: prod.splits option.splits bool.splits sum.splits auth_ret.splits)

subsection \<open>The remote authentication call\<close>

text \<open>
  C1. On a transport response that is not a success, or has an empty body,
  \<^verbatim>\<open>auth_cabinet_user\<close> logs the failure, but it returns the bare \<^verbatim>\<open>False\<close> where its
  caller unpacks a pair: a login that reaches the cabinet then ends in a \<^verbatim>\<open>TypeError\<close>,
  with no flash message, not in the ordinary rejection.
\<close>

theorem login_transport_failure_raises:
  assumes "\<not> is_authenticated (current_user rq)" and "validate_on_submit rq"
    and "\<not> local_accepts e rq"
    and "requests_post e (CABINET_AUTH e)
           (PDict [(''login'', PStr (form_login rq)), (''password'', PStr (form_password rq))])
         = Inr req"
    and "status_code req \<noteq> 200 \<or> body_text req = []"
  shows "auth_cabinet_user e (form_login rq) (form_password rq) =
           (Inr (RBool False),
            [Post (CABINET_AUTH e)
               (PDict [(''login'', PStr (form_login rq)), (''password'', PStr (form_password rq))]),
             Log ERROR (''requests.post to '' @ CABINET_AUTH e @ '' failed'')])
       \<and> login e rq =
           (Inl TypeError,
            [Post (CABINET_AUTH e)
               (PDict [(''login'', PStr (form_login rq)), (''password'', PStr (form_password rq))]),
             Log ERROR (''requests.post to '' @ CABINET_AUTH e @ '' failed'')])"
  by (simp add: login_remote_path [OF assms(1,2,3)]
        auth_cabinet_user_transport_failure [OF assms(4,5)])

theorem login_cabinet_down_raises:
  "\<not> is_authenticated (current_user nina_request) \<and> validate_on_submit nina_request
   \<and> \<not> local_accepts (cabinet down_response) nina_request
   \<and> requests_post (cabinet down_response) ''http://cabinet/auth''
        (PDict [(''login'', PStr ''nina''), (''password'', PStr ''p1'')]) = Inr down_response
   \<and> status_code down_response = 503
   \<and> auth_cabinet_user (cabinet down_response) ''nina'' ''p1'' =
        (Inr (RBool False),
         [Post ''http://cabinet/auth''
            (PDict [(''login'', PStr ''nina''), (''password'', PStr ''p1'')]),
          Log ERROR ''requests.post to http://cabinet/auth failed''])
   \<and> login (cabinet down_response) nina_request =
        (Inl TypeError,
         [Post ''http://cabinet/auth''
            (PDict [(''login'', PStr ''nina''), (''password'', PStr ''p1'')]),
          Log ERROR ''requests.post to http://cabinet/auth failed''])"
proof -
  have a: "\<not> is_authenticated (current_user nina_request)"
    by (simp add: nina_request_def guest_def)
  have v: "validate_on_submit nina_request"
    by (simp add: nina_request_def)
  have l: "\<not> local_accepts (cabinet down_response) nina_request"
    by (simp add: local_accepts_def cabinet_def nina_request_def)
  have p: "requests_post (cabinet down_response) (CABINET_AUTH (cabinet down_response))
        (PDict [(''login'', PStr (form_login nina_request)),
                (''password'', PStr (form_password nina_request))]) = Inr down_response"
    by (simp add: cabinet_def)
  have s: "status_code down_response \<noteq> 200 \<or> body_text down_response = []"
    by (simp add: down_response_def)
  have sel: "form_login nina_request = ''nina''" "form_password nina_request = ''p1''"
    "CABINET_AUTH (cabinet down_response) = ''http://cabinet/auth''"
    "status_code down_response = 503"
    by (simp_all add: nina_request_def cabinet_def down_response_def)
  from login_transport_failure_raises [OF a v l p s] a v l p show ?thesis
    by (simp add: sel)
qed

text \<open>
  C2, as the claim states it, fails: an answer with status code 201 is a success of the
  transport, and its body here is a JSON object whose \<^verbatim>\<open>status\<close> is \<^verbatim>\<open>OK\<close>, yet
  \<^verbatim>\<open>auth_cabinet_user\<close> takes its first exit and the result is not \<^verbatim>\<open>(True, email)\<close>.
\<close>

theorem auth_cabinet_user_created_counterexample:
  "status_code created_response = 201
   \<and> json_loads (cabinet created_response) (body_text created_response) =
       Inr (PDict [(''status'', PStr ''OK''), (''email'', PStr ''nina@x.com'')])
   \<and> auth_cabinet_user (cabinet created_response) ''nina'' ''p1'' =
       (Inr (RBool False),
        [Post ''http://cabinet/auth''
           (PDict [(''login'', PStr ''nina''), (''password'', PStr ''p1'')]),
         Log ERROR ''requests.post to http://cabinet/auth failed''])
   \<and> fst (auth_cabinet_user (cabinet created_response) ''nina'' ''p1'') \<noteq>
       Inr (RPair True (PStr ''nina@x.com''))"
  by (simp add: auth_cabinet_user_def Let_def sample_defs)

text \<open>
  C2, amended. When the answer has status code 200 exactly and a body that is not
  empty and parses to a JSON object, \<^verbatim>\<open>auth_cabinet_user\<close> returns \<^verbatim>\<open>(True, email)\<close>
  exactly when the \<^verbatim>\<open>status\<close> field is the string \<^verbatim>\<open>OK\<close>, the email being the
  \<^verbatim>\<open>email\<close> field if present and \<^verbatim>\<open>None\<close> otherwise; with any other status, or none, it
  logs a warning with the raw body and returns \<^verbatim>\<open>(False, None)\<close>.
\<close>

theorem auth_cabinet_user_status:
  assumes "requests_post e (CABINET_AUTH e)
             (PDict [(''login'', PStr uname), (''password'', PStr pw)]) = Inr req"
    and "status_code req = 200"
    and "body_text req \<noteq> []"
    and "json_loads e (body_text req) = Inr (PDict res)"
  shows "auth_cabinet_user e uname pw =
           (if map_of res ''status'' = Some (PStr ''OK'') then
              (Inr (RPair True (case map_of res ''email'' of None \<Rightarrow> PNone | Some v \<Rightarrow> v)),
               [Post (CABINET_AUTH e) (PDict [(''login'', PStr uname), (''password'', PStr pw)])])
            else
              (Inr (RPair False PNone),
               [Post (CABINET_AUTH e) (PDict [(''login'', PStr uname), (''password'', PStr pw)]),
                Log WARNING (''auth_cabinet_user: '' @ body_text req)]))"
  using assms
  by (simp add: auth_cabinet_user_def dict_get_def Let_def split: option.splits)

theorem auth_cabinet_user_status_witness:
  "requests_post (cabinet ok_response) (CABINET_AUTH (cabinet ok_response))
      (PDict [(''login'', PStr ''nina''), (''password'', PStr ''p1'')]) = Inr ok_response
   \<and> status_code ok_response = 200
   \<and> body_text ok_response \<noteq> []
   \<and> json_loads (cabinet ok_response) (body_text ok_response) =
       Inr (PDict [(''status'', PStr ''OK''), (''email'', PStr ''nina@x.com'')])
   \<and> auth_cabinet_user (cabinet ok_response) ''nina'' ''p1'' =
       (Inr (RPair True (PStr ''nina@x.com'')),
        [Post ''http://cabinet/auth''
           (PDict [(''login'', PStr ''nina''), (''password'', PStr ''p1'')])])"
proof -
  have p: "requests_post (cabinet ok_response) (CABINET_AUTH (cabinet ok_response))
      (PDict [(''login'', PStr ''nina''), (''password'', PStr ''p1'')]) = Inr ok_response"
    by (simp add: cabinet_def)
  have s: "status_code ok_response = 200" and b: "body_text ok_response \<noteq> []"
    by (simp_all add: ok_response_def)
  have j: "json_loads (cabinet ok_response) (body_text ok_response) =
       Inr (PDict [(''status'', PStr ''OK''), (''email'', PStr ''nina@x.com'')])"
    by (simp add: cabinet_def sample_loads_def ok_response_def)
  have u: "CABINET_AUTH (cabinet ok_response) = ''http://cabinet/auth''"
    by (simp add: cabinet_def)
  from auth_cabinet_user_status [OF p s b j] have
    "auth_cabinet_user (cabinet ok_response) ''nina'' ''p1'' =
       (Inr (RPair True (PStr ''nina@x.com'')),
        [Post ''http://cabinet/auth''
           (PDict [(''login'', PStr ''nina''), (''password'', PStr ''p1'')])])"
    by (simp add: u)
  with p s b j show ?thesis by blast
qed

subsection \<open>Login\<close>

text \<open>
  C3, as the claim states it, fails: a cabinet that answers with the empty string as
  email has returned an email, yet the user saved carries the sentinel, not that email.
\<close>

theorem login_blank_email_counterexample:
  "json_loads (cabinet blank_response) (body_text blank_response) =
     Inr (PDict [(''status'', PStr ''OK''), (''email'', PStr [])])
   \<and> auth_cabinet_user (cabinet blank_response) ''nina'' ''p1'' =
     (Inr (RPair True (PStr [])),
      [Post ''http://cabinet/auth''
         (PDict [(''login'', PStr ''nina''), (''password'', PStr ''p1'')])])
   \<and> saved_users (snd (login (cabinet blank_response) nina_request)) =
       [\<lparr>username = ''nina'', email = PStr ''unknown'', password = ''p1'',
         date_joined = 1600000000, primary_group_id = 4\<rparr>]
   \<and> map email (saved_users (snd (login (cabinet blank_response) nina_request))) \<noteq> [PStr []]"
  by (simp add: login_def auth_cabinet_user_def Let_def dict_get_def py_or_def
        saved_users_def sample_defs)

text \<open>
  C3, amended. When the form validates, the local verifier does not accept and the
  cabinet call returns \<^verbatim>\<open>(True, mail)\<close>, login saves exactly one new user, and starts
  the session with it: the username is the submitted login, the email is \<^verbatim>\<open>mail\<close> when
  that value is true in Python's sense and the sentinel \<^verbatim>\<open>unknown\<close> otherwise (that
  is, when it is \<^verbatim>\<open>None\<close>, \<^verbatim>\<open>False\<close>, zero, or an empty string, list or dictionary),
  the password is the submitted password, the join date is the current time and the
  group is 4.
\<close>

theorem login_provisions_user:
  assumes "\<not> is_authenticated (current_user rq)" and "validate_on_submit rq"
    and "\<not> local_accepts e rq"
    and "auth_cabinet_user e (form_login rq) (form_password rq) = (Inr (RPair True mail), evs)"
  shows "login e rq =
           (Inr (Redirect (next_or_index rq)),
            evs @ [Save \<lparr>username = form_login rq,
                         email = (if truthy mail then mail else PStr ''unknown''),
                         password = form_password rq,
                         date_joined = utcnow e,
                         primary_group_id = 4\<rparr>,
                   LoginUser \<lparr>username = form_login rq,
                         email = (if truthy mail then mail else PStr ''unknown''),
                         password = form_password rq,
                         date_joined = utcnow e,
                         primary_group_id = 4\<rparr> (PStr (form_password rq))])"
  using assms by (simp add: login_remote_path py_or_def)

theorem login_provisions_user_witness:
  "\<not> is_authenticated (current_user nina_request) \<and> validate_on_submit nina_request
   \<and> \<not> local_accepts (cabinet ok_response) nina_request
   \<and> auth_cabinet_user (cabinet ok_response) (form_login nina_request)
         (form_password nina_request) =
       (Inr (RPair True (PStr ''nina@x.com'')),
        [Post ''http://cabinet/auth''
           (PDict [(''login'', PStr ''nina''), (''password'', PStr ''p1'')])])
   \<and> login (cabinet ok_response) nina_request =
       (Inr (Redirect (UrlFor ''forum.index'')),
        [Post ''http://cabinet/auth''
           (PDict [(''login'', PStr ''nina''), (''password'', PStr ''p1'')]),
         Save \<lparr>username = ''nina'', email = PStr ''nina@x.com'', password = ''p1'',
               date_joined = 1600000000, primary_group_id = 4\<rparr>,
         LoginUser \<lparr>username = ''nina'', email = PStr ''nina@x.com'', password = ''p1'',
               date_joined = 1600000000, primary_group_id = 4\<rparr> (PStr ''p1'')])"
proof -
  have a: "\<not> is_authenticated (current_user nina_request)"
    by (simp add: nina_request_def guest_def)
  have v: "validate_on_submit nina_request"
    by (simp add: nina_request_def)
  have l: "\<not> local_accepts (cabinet ok_response) nina_request"
    by (simp add: local_accepts_def cabinet_def nina_request_def)
  have r: "auth_cabinet_user (cabinet ok_response) (form_login nina_request)
             (form_password nina_request) =
           (Inr (RPair True (PStr ''nina@x.com'')),
            [Post ''http://cabinet/auth''
               (PDict [(''login'', PStr ''nina''), (''password'', PStr ''p1'')])])"
    by (simp add: auth_cabinet_user_def Let_def dict_get_def sample_defs)
  from login_provisions_user [OF a v l r] have
    "login (cabinet ok_response) nina_request =
       (Inr (Redirect (UrlFor ''forum.index'')),
        [Post ''http://cabinet/auth''
           (PDict [(''login'', PStr ''nina''), (''password'', PStr ''p1'')]),
         Save \<lparr>username = ''nina'', email = PStr ''nina@x.com'', password = ''p1'',
               date_joined = 1600000000, primary_group_id = 4\<rparr>,
         LoginUser \<lparr>username = ''nina'', email = PStr ''nina@x.com'', password = ''p1'',
               date_joined = 1600000000, primary_group_id = 4\<rparr> (PStr ''p1'')])"
    by (simp add: nina_request_def next_or_index_def cabinet_def)
  with a v l r show ?thesis by blast
qed

text \<open>
  C5. A pair that the local verifier rejects and the cabinet rejects does not always
  end in the one generic message. When the cabinet rejects in a 200 answer (a JSON
  object whose \<^verbatim>\<open>status\<close> is not \<^verbatim>\<open>OK\<close>), login renders the login page again and its
  only local event is the flash of \<^verbatim>\<open>Wrong Username or Password.\<close>; when the cabinet
  rejects with any other status code, \<^verbatim>\<open>auth_cabinet_user\<close> returns the bare \<^verbatim>\<open>False\<close>
  and login raises \<^verbatim>\<open>TypeError\<close> with no flash at all.
\<close>

theorem login_rejection_by_status:
  assumes "\<not> is_authenticated (current_user rq)" and "validate_on_submit rq"
    and "\<not> local_accepts e rq"
    and "requests_post e (CABINET_AUTH e)
           (PDict [(''login'', PStr (form_login rq)), (''password'', PStr (form_password rq))])
         = Inr req"
  shows "(status_code req = 200 \<and> body_text req \<noteq> []
            \<and> json_loads e (body_text req) = Inr (PDict res)
            \<and> map_of res ''status'' \<noteq> Some (PStr ''OK'') \<longrightarrow>
          fst (login e rq) = Inr (Render ''auth/login.html'')
          \<and> local_events (snd (login e rq)) =
              [Flash ''Wrong Username or Password.'' ''danger''])
       \<and> (status_code req \<noteq> 200 \<longrightarrow>
          fst (login e rq) = Inl TypeError \<and> local_events (snd (login e rq)) = [])"
proof (intro conjI impI)
  assume h: "status_code req = 200 \<and> body_text req \<noteq> []
            \<and> json_loads e (body_text req) = Inr (PDict res)
            \<and> map_of res ''status'' \<noteq> Some (PStr ''OK'')"
  with assms(4) have c: "auth_cabinet_user e (form_login rq) (form_password rq) =
      (Inr (RPair False PNone),
       [Post (CABINET_AUTH e)
          (PDict [(''login'', PStr (form_login rq)), (''password'', PStr (form_password rq))]),
        Log WARNING (''auth_cabinet_user: '' @ body_text req)])"
    by (auto simp: auth_cabinet_user_def dict_get_def Let_def split: option.splits)
  show "fst (login e rq) = Inr (Render ''auth/login.html'')"
    by (simp add: login_remote_path [OF assms(1,2,3)] c)
  show "local_events (snd (login e rq)) = [Flash ''Wrong Username or Password.'' ''danger'']"
    by (simp add: login_remote_path [OF assms(1,2,3)] c local_events_def)
next
  assume "status_code req \<noteq> 200"
  then have s: "status_code req \<noteq> 200 \<or> body_text req = []" by simp
  show "fst (login e rq) = Inl TypeError"
    by (simp add: login_remote_path [OF assms(1,2,3)]
          auth_cabinet_user_transport_failure [OF assms(4) s])
  show "local_events (snd (login e rq)) = []"
    by (simp add: login_remote_path [OF assms(1,2,3)]
          auth_cabinet_user_transport_failure [OF assms(4) s] local_events_def)
qed

theorem login_rejection_by_status_witness:
  "\<not> is_authenticated (current_user nina_request) \<and> validate_on_submit nina_request
   \<and> \<not> local_accepts (cabinet fail_response) nina_request
   \<and> \<not> local_accepts (cabinet forbidden_response) nina_request
   \<and> status_code fail_response = 200
   \<and> json_loads (cabinet fail_response) (body_text fail_response) =
       Inr (PDict [(''status'', PStr ''FAIL'')])
   \<and> fst (login (cabinet fail_response) nina_request) = Inr (Render ''auth/login.html'')
   \<and> local_events (snd (login (cabinet fail_response) nina_request)) =
       [Flash ''Wrong Username or Password.'' ''danger'']
   \<and> status_code forbidden_response = 403
   \<and> json_loads (cabinet forbidden_response) (body_text forbidden_response) =
       Inr (PDict [(''status'', PStr ''FAIL'')])
   \<and> fst (login (cabinet forbidden_response) nina_request) = Inl TypeError
   \<and> local_events (snd (login (cabinet forbidden_response) nina_request)) = []"
proof -
  have a: "\<not> is_authenticated (current_user nina_request)"
    by (simp add: nina_request_def guest_def)
  have v: "validate_on_submit nina_request"
    by (simp add: nina_request_def)
  have l1: "\<not> local_accepts (cabinet fail_response) nina_request"
    and l2: "\<not> local_accepts (cabinet forbidden_response) nina_request"
    by (simp_all add: local_accepts_def cabinet_def nina_request_def)
  have p1: "requests_post (cabinet fail_response) (CABINET_AUTH (cabinet fail_response))
        (PDict [(''login'', PStr (form_login nina_request)),
                (''password'', PStr (form_password nina_request))]) = Inr fail_response"
    and p2: "requests_post (cabinet forbidden_response)
        (CABINET_AUTH (cabinet forbidden_response))
        (PDict [(''login'', PStr (form_login nina_request)),
                (''password'', PStr (form_password nina_request))]) = Inr forbidden_response"
    by (simp_all add: cabinet_def)
  have s1: "status_code fail_response = 200" and b1: "body_text fail_response \<noteq> []"
    and s2: "status_code forbidden_response = 403"
    by (simp_all add: fail_response_def forbidden_response_def)
  have j1: "json_loads (cabinet fail_response) (body_text fail_response) =
       Inr (PDict [(''status'', PStr ''FAIL'')])"
    and j2: "json_loads (cabinet forbidden_response) (body_text forbidden_response) =
       Inr (PDict [(''status'', PStr ''FAIL'')])"
    by (simp_all add: cabinet_def sample_loads_def fail_response_def forbidden_response_def)
  from login_rejection_by_status [OF a v l1 p1, of "[(''status'', PStr ''FAIL'')]"] s1 b1 j1
  have c1: "fst (login (cabinet fail_response) nina_request) = Inr (Render ''auth/login.html'')
     \<and> local_events (snd (login (cabinet fail_response) nina_request)) =
         [Flash ''Wrong Username or Password.'' ''danger'']"
    by simp
  from login_rejection_by_status [OF a v l2 p2] s2
  have c2: "fst (login (cabinet forbidden_response) nina_request) = Inl TypeError
     \<and> local_events (snd (login (cabinet forbidden_response) nina_request)) = []"
    by simp
  from a v l1 l2 s1 j1 c1 s2 j2 c2 show ?thesis by blast
qed

text \<open>
  C9. A login accepted locally starts the session with the remember-me value of the
  form as \<^verbatim>\<open>remember\<close>; a login accepted by the cabinet starts it with the submitted
  password as \<^verbatim>\<open>remember\<close>. The two arguments are never the same value.
\<close>

theorem login_remember_argument:
  assumes "\<not> is_authenticated (current_user rq)" and "validate_on_submit rq"
  shows "(local_accepts e rq \<longrightarrow>
            remember_args (snd (login e rq)) = [PBool (form_remember_me rq)])
       \<and> (\<not> local_accepts e rq
            \<and> fst (auth_cabinet_user e (form_login rq) (form_password rq)) = Inr (RPair True mail)
          \<longrightarrow> remember_args (snd (login e rq)) = [PStr (form_password rq)])
       \<and> [PStr (form_password rq)] \<noteq> [PBool (form_remember_me rq)]"
proof (intro conjI impI)
  assume "local_accepts e rq"
  with assms show "remember_args (snd (login e rq)) = [PBool (form_remember_me rq)]"
    by (simp add: login_def local_accepts_def remember_args_def Let_def
          split: prod.splits option.splits bool.splits)
next
  assume h: "\<not> local_accepts e rq
      \<and> fst (auth_cabinet_user e (form_login rq) (form_password rq)) = Inr (RPair True mail)"
  obtain r evs where c: "auth_cabinet_user e (form_login rq) (form_password rq) = (r, evs)"
    by (cases "auth_cabinet_user e (form_login rq) (form_password rq)")
  with h have r: "r = Inr (RPair True mail)" by simp
  have "remember_args evs = []"
    using auth_cabinet_user_remember_args [of e "form_login rq" "form_password rq"] c by simp
  then have "concat (map remember_of evs) = []"
    by (simp add: remember_args_def)
  with h c r show "remember_args (snd (login e rq)) = [PStr (form_password rq)]"
    by (simp add: login_remote_path [OF assms] remember_args_def)
next
  show "[PStr (form_password rq)] \<noteq> [PBool (form_remember_me rq)]" by simp
qed

theorem login_remember_argument_witness:
  "\<not> is_authenticated (current_user (alice_request ''t0''))
   \<and> validate_on_submit (alice_request ''t0'')
   \<and> local_accepts (cabinet ok_response) (alice_request ''t0'')
   \<and> remember_args (snd (login (cabinet ok_response) (alice_request ''t0''))) = [PBool True]
   \<and> \<not> is_authenticated (current_user nina_request) \<and> validate_on_submit nina_request
   \<and> \<not> local_accepts (cabinet ok_response) nina_request
   \<and> fst (auth_cabinet_user (cabinet ok_response) (form_login nina_request)
            (form_password nina_request)) = Inr (RPair True (PStr ''nina@x.com''))
   \<and> remember_args (snd (login (cabinet ok_response) nina_request)) = [PStr ''p1'']"
proof -
  have a1: "\<not> is_authenticated (current_user (alice_request ''t0''))"
    and v1: "validate_on_submit (alice_request ''t0'')"
    by (simp_all add: alice_request_def guest_def)
  have l1: "local_accepts (cabinet ok_response) (alice_request ''t0'')"
    by (simp add: local_accepts_def cabinet_def alice_request_def)
  have a2: "\<not> is_authenticated (current_user nina_request)"
    and v2: "validate_on_submit nina_request"
    by (simp_all add: nina_request_def guest_def)
  have l2: "\<not> local_accepts (cabinet ok_response) nina_request"
    by (simp add: local_accepts_def cabinet_def nina_request_def)
  have r2: "fst (auth_cabinet_user (cabinet ok_response) (form_login nina_request)
            (form_password nina_request)) = Inr (RPair True (PStr ''nina@x.com''))"
    by (simp add: auth_cabinet_user_def Let_def dict_get_def sample_defs)
  have sel: "form_remember_me (alice_request ''t0'') = True"
    "form_password nina_request = ''p1''"
    by (simp_all add: alice_request_def nina_request_def)
  from login_remember_argument [OF a1 v1, of "cabinet ok_response"] l1
  have c1: "remember_args (snd (login (cabinet ok_response) (alice_request ''t0''))) =
              [PBool True]"
    by (simp add: sel)
  from login_remember_argument [OF a2 v2, of "cabinet ok_response" "PStr ''nina@x.com''"] l2 r2
  have c2: "remember_args (snd (login (cabinet ok_response) nina_request)) = [PStr ''p1'']"
    by (simp add: sel)
  from a1 v1 l1 c1 a2 v2 l2 r2 c2 show ?thesis by blast
qed

subsection \<open>Registration\<close>






subsection \<open>Password reset\<close>

text \<open>
  C7. A forgot-password request whose email matches no account causes no token event
  at all; when it comes from an anonymous visitor with a valid form, it renders the
  page again and its only event is the flash of the not-linked message. Such a request
  whose email matches an account makes a token for that user, hands this token to the
  mailer and redirects.
\<close>

theorem forgot_password_token_issue:
  "(query_by_email e (form_email rq) = None \<longrightarrow>
      filter is_token_event (snd (forgot_password e rq)) = [])
   \<and> (is_anonymous (current_user rq) \<and> validate_on_submit rq
        \<and> query_by_email e (form_email rq) = None \<longrightarrow>
      forgot_password e rq =
        (Inr (Render ''auth/forgot_password.html''),
         [Flash (''You have entered a Username or E-Mail Address that is '' @
                 ''not linked with your account.'') ''danger'']))
   \<and> (is_anonymous (current_user rq) \<and> validate_on_submit rq
        \<and> query_by_email e (form_email rq) = Some u \<longrightarrow>
      forgot_password e rq =
        (Inr (Redirect (UrlFor ''auth.forgot_password'')),
         [MakeResetToken u, SendResetToken u (make_reset_token e u),
          Flash ''E-Mail sent! Please check your inbox.'' ''info'']))"
  by (simp add: forgot_password_def)

theorem forgot_password_token_issue_witness:
  "query_by_email (cabinet ok_response) (form_email nina_request) = None
   \<and> is_anonymous (current_user nina_request) \<and> validate_on_submit nina_request
   \<and> filter is_token_event (snd (forgot_password (cabinet ok_response) nina_request)) = []
   \<and> forgot_password (cabinet ok_response) nina_request =
        (Inr (Render ''auth/forgot_password.html''),
         [Flash ''You have entered a Username or E-Mail Address that is not linked with your account.''
            ''danger''])
   \<and> query_by_email (cabinet ok_response) (form_email (alice_request ''t0'')) = Some alice
   \<and> is_anonymous (current_user (alice_request ''t0''))
   \<and> validate_on_submit (alice_request ''t0'')
   \<and> forgot_password (cabinet ok_response) (alice_request ''t0'') =
        (Inr (Redirect (UrlFor ''auth.forgot_password'')),
         [MakeResetToken alice, SendResetToken alice ''token-for-alice'',
          Flash ''E-Mail sent! Please check your inbox.'' ''info''])"
proof -
  have q1: "query_by_email (cabinet ok_response) (form_email nina_request) = None"
    and a1: "is_anonymous (current_user nina_request)"
    and v1: "validate_on_submit nina_request"
    by (simp_all add: cabinet_def nina_request_def guest_def)
  have q2: "query_by_email (cabinet ok_response) (form_email (alice_request ''t0'')) = Some alice"
    and a2: "is_anonymous (current_user (alice_request ''t0''))"
    and v2: "validate_on_submit (alice_request ''t0'')"
    by (simp_all add: cabinet_def alice_request_def guest_def)
  have m: "make_reset_token (cabinet ok_response) alice = ''token-for-alice''"
    by (simp add: cabinet_def alice_def)
  from forgot_password_token_issue [of "cabinet ok_response" nina_request] q1 a1 v1
  have c1: "filter is_token_event (snd (forgot_password (cabinet ok_response) nina_request)) = []"
    and c2: "forgot_password (cabinet ok_response) nina_request =
        (Inr (Render ''auth/forgot_password.html''),
         [Flash ''You have entered a Username or E-Mail Address that is not linked with your account.''
            ''danger''])"
    by simp_all
  from forgot_password_token_issue [of "cabinet ok_response" "alice_request ''t0''" alice] q2 a2 v2
  have c3: "forgot_password (cabinet ok_response) (alice_request ''t0'') =
        (Inr (Redirect (UrlFor ''auth.forgot_password'')),
         [MakeResetToken alice, SendResetToken alice ''token-for-alice'',
          Flash ''E-Mail sent! Please check your inbox.'' ''info''])"
    by (simp add: m)
  from q1 a1 v1 c1 c2 q2 a2 v2 c3 show ?thesis by blast
qed

text \<open>
  C6. In a reset-password submission for a known user, an invalid token ends in the
  invalid-token message and the redirect to the forgot-password page whether or not
  the token is also reported expired, and nothing is saved. In every submission
  whatsoever, a user is saved only if the token was reported neither invalid nor
  expired, and what is saved is the user found, with the submitted password.
\<close>

theorem reset_password_invalid_first:
  "(is_anonymous (current_user rq) \<and> validate_on_submit rq
      \<and> query_by_email e (form_email rq) = Some u
      \<and> verify_reset_token e u (form_token rq) = (expired, True, data) \<longrightarrow>
    reset_password e rq =
      (Inr (Redirect (UrlFor ''auth.forgot_password'')),
       [VerifyResetToken u (form_token rq),
        Flash ''Your Password Token is invalid.'' ''danger'']))
   \<and> (Save w \<in> set (snd (reset_password e rq)) \<longrightarrow>
        (\<exists>v d. query_by_email e (form_email rq) = Some v
               \<and> verify_reset_token e v (form_token rq) = (False, False, d)
               \<and> w = v\<lparr>password := form_password rq\<rparr>))"
  by (auto simp: reset_password_def split: if_splits option.splits prod.splits)

theorem reset_password_invalid_first_witness:
  "is_anonymous (current_user (alice_request ''both''))
   \<and> validate_on_submit (alice_request ''both'')
   \<and> query_by_email (cabinet ok_response) (form_email (alice_request ''both'')) = Some alice
   \<and> verify_reset_token (cabinet ok_response) alice (form_token (alice_request ''both'')) =
       (True, True, PNone)
   \<and> reset_password (cabinet ok_response) (alice_request ''both'') =
       (Inr (Redirect (UrlFor ''auth.forgot_password'')),
        [VerifyResetToken alice ''both'', Flash ''Your Password Token is invalid.'' ''danger''])
   \<and> Save (alice\<lparr>password := ''secret''\<rparr>)
        \<in> set (snd (reset_password (cabinet ok_response) (alice_request ''fresh'')))
   \<and> query_by_email (cabinet ok_response) (form_email (alice_request ''fresh'')) = Some alice
   \<and> \<not> fst (verify_reset_token (cabinet ok_response) alice ''fresh'')
   \<and> \<not> fst (snd (verify_reset_token (cabinet ok_response) alice ''fresh''))"
proof -
  have a: "is_anonymous (current_user (alice_request ''both''))"
    and v: "validate_on_submit (alice_request ''both'')"
    and q: "query_by_email (cabinet ok_response) (form_email (alice_request ''both'')) =
              Some alice"
    and t: "verify_reset_token (cabinet ok_response) alice (form_token (alice_request ''both''))
              = (True, True, PNone)"
    by (simp_all add: cabinet_def alice_request_def guest_def sample_verify_def)
  have sel: "form_token (alice_request ''both'') = ''both''"
    "form_token (alice_request ''fresh'') = ''fresh''"
    by (simp_all add: alice_request_def)
  from reset_password_invalid_first
         [of "alice_request ''both''" "cabinet ok_response" alice True PNone] a v q t
  have c1: "reset_password (cabinet ok_response) (alice_request ''both'') =
       (Inr (Redirect (UrlFor ''auth.forgot_password'')),
        [VerifyResetToken alice ''both'', Flash ''Your Password Token is invalid.'' ''danger''])"
    by (simp add: sel)
  have s: "Save (alice\<lparr>password := ''secret''\<rparr>)
        \<in> set (snd (reset_password (cabinet ok_response) (alice_request ''fresh'')))"
    by (simp add: reset_password_def cabinet_def alice_request_def guest_def sample_verify_def)
  have q2: "query_by_email (cabinet ok_response) (form_email (alice_request ''fresh'')) =
              Some alice"
    by (simp add: cabinet_def alice_request_def)
  from reset_password_invalid_first
         [of "alice_request ''fresh''" "cabinet ok_response" alice True PNone
             "alice\<lparr>password := ''secret''\<rparr>"] s
  have "\<exists>v d. query_by_email (cabinet ok_response) (form_email (alice_request ''fresh'')) = Some v
          \<and> verify_reset_token (cabinet ok_response) v (form_token (alice_request ''fresh'')) =
              (False, False, d)"
    by blast
  with q2 have c2: "\<not> fst (verify_reset_token (cabinet ok_response) alice ''fresh'')
     \<and> \<not> fst (snd (verify_reset_token (cabinet ok_response) alice ''fresh''))"
    by (auto simp: sel)
  from a v q t c1 s q2 c2 show ?thesis by blast
qed

text \<open>
  C8. In a reset-password submission by an anonymous visitor with a valid form, the
  token verification is called on the result of the lookup by email with no check in
  between: when the lookup finds no user the view raises \<^verbatim>\<open>AttributeError\<close> at that
  call, before any other effect; when it finds one, the verification is the first event,
  also when the data returned is empty and the guard of the update branch fails.
\<close>

theorem reset_password_verifies_unchecked:
  "(is_anonymous (current_user rq) \<and> validate_on_submit rq
      \<and> query_by_email e (form_email rq) = None \<longrightarrow>
    reset_password e rq = (Inl AttributeError, []))
   \<and> (is_anonymous (current_user rq) \<and> validate_on_submit rq
      \<and> query_by_email e (form_email rq) = Some u \<longrightarrow>
    take 1 (snd (reset_password e rq)) = [VerifyResetToken u (form_token rq)])"
  by (simp add: reset_password_def split: prod.splits)

theorem reset_password_verifies_unchecked_witness:
  "is_anonymous (current_user nina_request) \<and> validate_on_submit nina_request
   \<and> query_by_email (cabinet ok_response) (form_email nina_request) = None
   \<and> reset_password (cabinet ok_response) nina_request = (Inl AttributeError, [])
   \<and> is_anonymous (current_user (alice_request ''old''))
   \<and> validate_on_submit (alice_request ''old'')
   \<and> query_by_email (cabinet ok_response) (form_email (alice_request ''old'')) = Some alice
   \<and> take 1 (snd (reset_password (cabinet ok_response) (alice_request ''old''))) =
       [VerifyResetToken alice ''old'']"
proof -
  have a1: "is_anonymous (current_user nina_request)"
    and v1: "validate_on_submit nina_request"
    and q1: "query_by_email (cabinet ok_response) (form_email nina_request) = None"
    by (simp_all add: cabinet_def nina_request_def guest_def)
  have a2: "is_anonymous (current_user (alice_request ''old''))"
    and v2: "validate_on_submit (alice_request ''old'')"
    and q2: "query_by_email (cabinet ok_response) (form_email (alice_request ''old'')) =
               Some alice"
    by (simp_all add: cabinet_def alice_request_def guest_def)
  from reset_password_verifies_unchecked [of nina_request "cabinet ok_response"] a1 v1 q1
  have c1: "reset_password (cabinet ok_response) nina_request = (Inl AttributeError, [])"
    by simp
  from reset_password_verifies_unchecked [of "alice_request ''old''" "cabinet ok_response" alice]
    a2 v2 q2
  have c2: "take 1 (snd (reset_password (cabinet ok_response) (alice_request ''old''))) =
       [VerifyResetToken alice ''old'']"
    by (simp add: alice_request_def)
  from a1 v1 q1 c1 a2 v2 q2 c2 show ?thesis by blast
qed

subsection \<open>Visitors that are already logged in\<close>

text \<open>
  C10. For an authenticated visitor, login and register answer with a redirect to the
  profile; for a visitor that is not anonymous, forgot-password and reset-password
  answer with a redirect to the forum index. In all four cases the trace is empty: no
  user is saved, no request goes to the cabinet, no token is made, sent or verified.
\<close>

theorem logged_in_visitor_redirected:
  "(is_authenticated (current_user rq) \<longrightarrow>
      login e rq = (Inr (Redirect (UrlFor ''user.profile'')), [])
      \<and> register e rq =
          (Inr (Redirect (UrlForProfile (visitor_username (current_user rq)))), []))
   \<and> (\<not> is_anonymous (current_user rq) \<longrightarrow>
      forgot_password e rq = (Inr (Redirect (UrlFor ''forum.index'')), [])
      \<and> reset_password e rq = (Inr (Redirect (UrlFor ''forum.index'')), []))"
  by (simp add: login_def register_def forgot_password_def reset_password_def)

theorem logged_in_visitor_redirected_witness:
  "is_authenticated (current_user (nina_request\<lparr>current_user := member\<rparr>))
   \<and> \<not> is_anonymous (current_user (nina_request\<lparr>current_user := member\<rparr>))
   \<and> login (cabinet ok_response) (nina_request\<lparr>current_user := member\<rparr>) =
       (Inr (Redirect (UrlFor ''user.profile'')), [])
   \<and> register (cabinet ok_response) (nina_request\<lparr>current_user := member\<rparr>) =
       (Inr (Redirect (UrlForProfile ''alice'')), [])
   \<and> forgot_password (cabinet ok_response) (nina_request\<lparr>current_user := member\<rparr>) =
       (Inr (Redirect (UrlFor ''forum.index'')), [])
   \<and> reset_password (cabinet ok_response) (nina_request\<lparr>current_user := member\<rparr>) =
       (Inr (Redirect (UrlFor ''forum.index'')), [])"
proof -
  have a: "is_authenticated (current_user (nina_request\<lparr>current_user := member\<rparr>))"
    and n: "\<not> is_anonymous (current_user (nina_request\<lparr>current_user := member\<rparr>))"
    and u: "visitor_username (current_user (nina_request\<lparr>current_user := member\<rparr>)) = ''alice''"
    by (simp_all add: member_def)
  from logged_in_visitor_redirected
         [of "nina_request\<lparr>current_user := member\<rparr>" "cabinet ok_response"] a n u
  show ?thesis by simp
qed

end
